theory Spec2Isabelle
  imports Main
begin

section \<open>The middle-room store: data model\<close>

text \<open>
  The development follows \<^verbatim>\<open>src/stores/app/middle-room.ts\<close>. The class
  \<^verbatim>\<open>MiddleRoomStore\<close> is a record of its observable fields; the collaborators it
  calls (the room manager's user service, the scene store's device methods, the board
  store, the education manager) are not part of the file, so every awaited call into them
  is an element of a \<^emph>\<open>call trace\<close>, and whether such a call rejects is a parameter
  \<open>throws\<close> of each operation.
\<close>

subsection \<open>Property patches\<close>

text \<open>Values that the store writes into a property patch: numbers and strings.\<close>

datatype pval = PNum int | PStr string

text \<open>
  A patch is a JavaScript object keyed by property path. Keys keep their insertion
  order, and assigning to a key that is already present overwrites its value in place.
\<close>

type_synonym properties = "(string \<times> pval) list"

fun assign :: "properties \<Rightarrow> string \<Rightarrow> pval \<Rightarrow> properties" where
  "assign [] k v = [(k, v)]"
| "assign ((k', v') # ps) k v = (if k' = k then (k', v) # ps else (k', v') # assign ps k v)"

subsection \<open>Numbers\<close>

text \<open>
  A JavaScript number is an IEEE 754 double. The store keeps rewards as whole numbers (it
  writes 0 on join and \<^verbatim>\<open>reward + 1\<close> afterwards), so a reward is modelled by the
  integer it holds. Whole numbers below \<open>2 ^ 53\<close> in magnitude are all doubles; from there
  on a double has 53 significant bits, so the doubles in \<open>[2 ^ (52 + e), 2 ^ (53 + e)]\<close> are
  the multiples of \<open>2 ^ e\<close>. \<open>excess a\<close> is that \<open>e\<close>: the number of bits of
  \<open>a\<close> beyond 53.
\<close>

function excess :: "int \<Rightarrow> nat" where
  "excess a = (if a < 2 ^ 53 then 0 else Suc (excess (a div 2)))"
  by pat_completeness auto
termination
  by (relation "measure nat") auto

declare excess.simps [simp del]

text \<open>
  The double nearest to a whole number \<open>n\<close>, a tie going to the neighbour with the even
  significand (the default rounding of IEEE 754 arithmetic). The sum of a double and 1 is
  never beyond the largest double, so overflow to infinity does not arise.
\<close>

definition round_double :: "int \<Rightarrow> int" where
  "round_double n =
     (let a = \<bar>n\<bar>;
          q = 2 ^ excess a;
          m = a div q;
          r = a mod q;
          m' = (if q < 2 * r \<or> (2 * r = q \<and> odd m) then m + 1 else m)
      in sgn n * (m' * q))"

text \<open>\<^verbatim>\<open>x + y\<close> on whole numbers: the exact sum, rounded to a double.\<close>

definition js_add :: "int \<Rightarrow> int \<Rightarrow> int" where
  "js_add x y = round_double (x + y)"

subsection \<open>Groups and stream batches\<close>

record group_member =
  userUuid :: string
  userName :: string
  reward :: int
  streamUuid :: string
  offline :: bool

record user_group =
  groupName :: string
  groupUuid :: string
  members :: "group_member list"

text \<open>
  An entry of a stream batch upsert: userUuid, streamUuid, streamName, videoSourceType,
  audioSourceType, videoState, audioState. An entry of a batch deletion: userUuid,
  streamUuid.
\<close>

datatype stream_type = StreamType string string string int int int int

datatype delete_stream_type = DeleteStreamType string string

subsection \<open>Awaited calls into the collaborators\<close>

datatype call =
    UpdateRoomBatchProperties properties string
  | BatchUpsertStream "stream_type list"
  | BatchDeleteStream "delete_stream_type list"
  | PrepareCamera
  | PrepareMicrophone
  | OpenCamera
  | CloseCamera
  | OpenMicrophone
  | CloseMicrophone
  | LeaveRtc
  | BoardLeave
  | Logout
  | RoomManagerLeave

text \<open>An awaited call that rejects surfaces as an exception at the \<^verbatim>\<open>await\<close>.\<close>

datatype error = Rejected call | TypeError

subsection \<open>The room property tree\<close>

text \<open>The \<^verbatim>\<open>record\<close> namespace of a snapshot: its state and the record id.\<close>

datatype record_prop = RecordProp (rec_state: int) (rec_recordId: string)

record middle_room_properties =
  handUpStates :: "int \<times> int"
  groups :: "string \<rightharpoonup> (string \<times> string list)"
  students :: "string \<rightharpoonup> (string \<times> int \<times> string)"
  teachers :: "string \<rightharpoonup> string"
  interactOutGroups :: "string \<rightharpoonup> string"
  processes :: "string \<rightharpoonup> (int \<times> int \<times> int)"
  recordNs :: "record_prop option"

text \<open>The initial value of the observable \<^verbatim>\<open>roomProperties\<close> (lines 1106-1117).\<close>

definition initial_roomProperties :: middle_room_properties where
  "initial_roomProperties =
     \<lparr> handUpStates = (0, 0), groups = Map.empty, students = Map.empty,
       teachers = Map.empty, interactOutGroups = Map.empty, processes = Map.empty,
       recordNs = None \<rparr>"

subsection \<open>Streams, snapshots and chat messages\<close>

text \<open>
  \<^verbatim>\<open>EduVideoSourceType\<close> is declared outside this file; the store only compares a
  stream's source type with \<^verbatim>\<open>EduVideoSourceType.screen\<close>.
\<close>

datatype edu_video_source_type = Camera | Screen | OtherSource

datatype edu_stream =
  EduStream (es_streamUuid: string) (es_userUuid: string)
            (videoSourceType: edu_video_source_type) (hasVideo: bool) (hasAudio: bool)

text \<open>
  What \<^verbatim>\<open>roomManager.getLocalStreamData()\<close> and \<^verbatim>\<open>getLocalScreenData()\<close>
  return when they return an object: its \<^verbatim>\<open>state\<close> and its \<^verbatim>\<open>stream\<close>.
\<close>

datatype stream_data = StreamData (sd_state: int) (sd_stream: edu_stream)

text \<open>
  The status block of a snapshot; \<^verbatim>\<open>startTime\<close> is read with
  \<^verbatim>\<open>get(classroom, 'roomStatus.startTime', 0)\<close>, so it may be missing.
\<close>

datatype room_status =
  RoomStatus (courseState: int) (status_startTime: "int option") (isStudentChatAllowed: bool)

datatype classroom =
  Classroom (cr_roomProperties: middle_room_properties) (roomStatus: room_status)

record chat_message =
  cm_id :: string
  ts :: int
  cm_text :: string
  account :: string
  link :: "string option"
  sender :: bool

subsection \<open>The session clock\<close>

text \<open>
  Modelled from the spec: the mixin \<^verbatim>\<open>SimpleInterval\<close> (\<^verbatim>\<open>mixin/simple-interval\<close>) is
  not part of the file. Section 4.5 of the specification describes it: a named repeating
  timer; starting a name that is already running replaces the previous timer; stopping
  removes the timer if present and does nothing if absent. A timer is recorded by the
  start time its callback passes to \<^verbatim>\<open>appStore.updateTime\<close> and by its period.
\<close>

record interval_timer =
  tick_startTime :: int
  tick_ms :: nat

definition addInterval ::
  "string \<Rightarrow> interval_timer \<Rightarrow> (string \<rightharpoonup> interval_timer) \<Rightarrow> (string \<rightharpoonup> interval_timer)" where
  "addInterval name timer m = m(name \<mapsto> timer)"

definition delInterval ::
  "string \<Rightarrow> (string \<rightharpoonup> interval_timer) \<Rightarrow> (string \<rightharpoonup> interval_timer)" where
  "delInterval name m = m(name := None)"

definition ms :: nat where
  "ms = 500"

subsection \<open>The store\<close>

text \<open>
  The fields of the scene store that this file reads and writes. \<open>cameraEduStream\<close>
  and \<open>screenEduStream\<close> are the fields \<^verbatim>\<open>_cameraEduStream\<close> and
  \<^verbatim>\<open>_screenEduStream\<close>, \<open>hasCamera\<close> and \<open>hasMicrophone\<close> are
  \<^verbatim>\<open>_hasCamera\<close> and \<^verbatim>\<open>_hasMicrophone\<close>; \<open>roomManagerDefined\<close> says
  whether \<^verbatim>\<open>sceneStore.roomManager\<close> is defined (it is read through \<^verbatim>\<open>?.\<close> in
  \<^verbatim>\<open>leave\<close>).
\<close>

record scene_store =
  joiningRTC :: bool
  cameraEduStream :: "edu_stream option"
  screenEduStream :: "edu_stream option"
  hasCamera :: bool
  hasMicrophone :: bool
  sharing :: bool
  recordState :: bool
  recordId :: string
  classState :: int
  startTime :: int
  isMuted :: bool
  streamList :: "edu_stream list"
  roomUuid :: string
  roomManagerDefined :: bool

text \<open>
  The observable fields of \<^verbatim>\<open>MiddleRoomStore\<close>, the timers it inherits from
  \<^verbatim>\<open>SimpleInterval\<close>, and the scene store it reaches through the app store.
\<close>

record middle_room_store =
  quit :: bool
  roomChatMessages :: "chat_message list"
  unreadMessageCount :: int
  messages :: "string list"
  userGroups :: "user_group list"
  pkList :: "string list"
  notice :: "(string \<times> string) option"
  roomProperties :: middle_room_properties
  joined :: bool
  groupingSolution :: int
  intervals :: "string \<rightharpoonup> interval_timer"
  sceneStore :: scene_store

text \<open>
  What an operation is given by its collaborators: which awaited calls reject, what the
  room manager reports when asked, what the device probes find, what
  \<^verbatim>\<open>sceneStore.reset()\<close> does to the scene store, and the clock
  (\<^verbatim>\<open>Date.now()\<close>). The user's role is \<^verbatim>\<open>appStore.roomInfo.userRole\<close>.
\<close>

record collaborators =
  throws :: "call \<Rightarrow> bool"
  getLocalStreamData :: "stream_data option"
  getLocalScreenData :: "stream_data option"
  getFullStreamList :: "edu_stream list"
  cameraProbe :: bool
  microphoneProbe :: bool
  sceneReset :: "scene_store \<Rightarrow> scene_store"
  now :: int
  userRole :: string

text \<open>
  A sequence of awaited calls, each issued only after the previous one resolved: the
  first call that rejects ends the sequence, and the calls after it are never issued.
  The result is the outcome together with the calls that were issued.
\<close>

fun await_all :: "(call \<Rightarrow> bool) \<Rightarrow> call list \<Rightarrow> (error + unit) \<times> call list" where
  "await_all thr [] = (Inr (), [])"
| "await_all thr (c # cs) =
     (if thr c then (Inl (Rejected c), [c])
      else (case await_all thr cs of (r, tr) \<Rightarrow> (r, c # tr)))"

section \<open>Operations\<close>

text \<open>
  Every operation returns its outcome (\<open>Inl\<close> when an awaited call rejected and the
  exception left the operation), the store afterwards, and the awaited calls it issued, in
  order. One invocation is followed from its first statement to its last; notifications
  that the event loop could run while the invocation is suspended are outside the model.
\<close>

type_synonym run = "(error + unit) \<times> middle_room_store \<times> call list"

subsection \<open>Stage seating\<close>

text \<open>
  The computed view \<^verbatim>\<open>platformState\<close> (lines 836-866), its fields \<^verbatim>\<open>g1\<close>
  and \<^verbatim>\<open>g2\<close>: the two stage slots. The member lists of the view are read by the
  rendering code only. \<^verbatim>\<open>get(obj, path, '')\<close> gives the default for a missing key.
\<close>

record platform_state =
  g1 :: string
  g2 :: string

definition get_or :: "'a option \<Rightarrow> 'a \<Rightarrow> 'a" where
  "get_or v d = (case v of None \<Rightarrow> d | Some x \<Rightarrow> x)"

definition platformState :: "middle_room_store \<Rightarrow> platform_state" where
  "platformState s =
     \<lparr> g1 = get_or (interactOutGroups (roomProperties s) ''g1'') '''',
       g2 = get_or (interactOutGroups (roomProperties s) ''g2'') '''' \<rparr>"

text \<open>\<^verbatim>\<open>clickPlatform\<close> (lines 893-961). A string is truthy when it is not empty.\<close>

definition clickPlatform :: "collaborators \<Rightarrow> middle_room_store \<Rightarrow> user_group \<Rightarrow> run" where
  "clickPlatform env s grp =
     (let id = groupUuid grp;
          cause = ''104''
      in if g1 (platformState s) = id \<or> g2 (platformState s) = id then
           (let t = (if g1 (platformState s) = id then ''g1'' else ''g2'');
                properties =
                  (if (t = ''g1'' \<and> \<not> g2 (platformState s) \<noteq> '''')
                      \<or> (t = ''g2'' \<and> \<not> g1 (platformState s) \<noteq> '''')
                   then [(''groupStates.interactOutGroup'', PNum 0),
                         (''interactOutGroups.'' @ t, PStr '''')]
                   else [(''interactOutGroups.'' @ t, PStr '''')]);
                streams = map (\<lambda>item. DeleteStreamType (userUuid item) (streamUuid item))
                              (members grp)
            in case await_all (throws env)
                      [UpdateRoomBatchProperties properties cause, BatchDeleteStream streams]
               of (r, tr) \<Rightarrow> (r, s, tr))
         else if g1 (platformState s) \<noteq> '''' \<and> g2 (platformState s) \<noteq> '''' then
           (Inr (), s, [])
         else
           (let streams = map (\<lambda>item. StreamType (userUuid item) (streamUuid item)
                                        (userUuid item @ ''stream'') 1 1 1 1)
                              (members grp);
                t = (if \<not> g1 (platformState s) \<noteq> '''' then ''g1'' else ''g2'');
                properties = [(''groupStates.state'', PNum 1),
                              (''groupStates.interactInGroup'', PNum 0),
                              (''groupStates.interactOutGroup'', PNum 1),
                              (''interactOutGroups.'' @ t, PStr id)]
            in case await_all (throws env)
                      [BatchUpsertStream streams, UpdateRoomBatchProperties properties cause]
               of (r, tr) \<Rightarrow> (r, s, tr)))"

text \<open>
  \<^verbatim>\<open>addGroupStar\<close> (lines 963-972). The callback of \<^verbatim>\<open>forEach\<close> has no
  \<^verbatim>\<open>await\<close>, so every assignment has happened when the patch is sent.
\<close>

definition reward_path :: "string \<Rightarrow> string" where
  "reward_path uuid = ''students.'' @ uuid @ ''.reward''"

definition addGroupStar :: "collaborators \<Rightarrow> middle_room_store \<Rightarrow> user_group \<Rightarrow> run" where
  "addGroupStar env s grp =
     (let properties =
            fold (\<lambda>stu props. assign props (reward_path (userUuid stu))
                                     (PNum (js_add (reward stu) 1)))
                 (members grp) [];
          cause = ''202''
      in case await_all (throws env) [UpdateRoomBatchProperties properties cause]
         of (r, tr) \<Rightarrow> (r, s, tr))"

subsection \<open>Reset and leave\<close>

text \<open>
  \<^verbatim>\<open>reset\<close> (lines 172-184). \<^verbatim>\<open>mediaStore.resetRoomState()\<close> and
  \<^verbatim>\<open>appStore.resetTime()\<close> act on stores that hold none of the fields above;
  \<^verbatim>\<open>sceneStore.reset()\<close> is the collaborator's \<open>sceneReset\<close>.
\<close>

definition reset :: "collaborators \<Rightarrow> middle_room_store \<Rightarrow> middle_room_store" where
  "reset env s =
     s\<lparr> sceneStore := sceneReset env (sceneStore s),
        roomChatMessages := [],
        userGroups := [],
        pkList := [],
        messages := [],
        notice := None,
        groupingSolution := 0,
        quit := False \<rparr>"

text \<open>
  \<^verbatim>\<open>leave\<close> (lines 1307-1325). The four awaited steps run inside \<^verbatim>\<open>try\<close>; when
  all resolve, the timer is deleted and the store reset; when one rejects, control moves to
  \<^verbatim>\<open>catch\<close>, which resets the store and logs the error. Either way \<^verbatim>\<open>leave\<close>
  itself resolves. \<^verbatim>\<open>resetRoomInfo\<close> and the sequence-id updates act on the app store
  and the UI store.
\<close>

definition leave :: "collaborators \<Rightarrow> middle_room_store \<Rightarrow> run" where
  "leave env s =
     (let s1 = s\<lparr> sceneStore := (sceneStore s)\<lparr> joiningRTC := True \<rparr> \<rparr>;
          steps = [LeaveRtc, BoardLeave, Logout]
                  @ (if roomManagerDefined (sceneStore s1) then [RoomManagerLeave] else [])
      in case await_all (throws env) steps of
           (Inr u, tr) \<Rightarrow>
             (Inr (), reset env (s1\<lparr> intervals := delInterval ''timer'' (intervals s1) \<rparr>), tr)
         | (Inl err, tr) \<Rightarrow>
             (Inr (), reset env s1, tr))"

subsection \<open>Sequencing inside an asynchronous body\<close>

text \<open>
  \<open>await env c s\<close> issues the call \<open>c\<close> in store \<open>s\<close>; \<open>then_run r f\<close>
  continues with \<open>f\<close> when \<open>r\<close> resolved and stops with the exception of \<open>r\<close>
  when it did not.
\<close>

definition await :: "collaborators \<Rightarrow> call \<Rightarrow> middle_room_store \<Rightarrow> run" where
  "await env c s = (if throws env c then (Inl (Rejected c), s, [c]) else (Inr (), s, [c]))"

definition then_run :: "run \<Rightarrow> (middle_room_store \<Rightarrow> run) \<Rightarrow> run" where
  "then_run r f =
     (case r of
        (Inl e, s, tr) \<Rightarrow> (Inl e, s, tr)
      | (Inr u, s, tr) \<Rightarrow> (case f s of (r', s', tr') \<Rightarrow> (r', s', tr @ tr')))"

subsection \<open>The local-stream-updated handler\<close>

text \<open>
  Modelled from the spec: \<^verbatim>\<open>sceneStore.prepareCamera()\<close> and
  \<^verbatim>\<open>prepareMicrophone()\<close> are not part of the file. Section 4.2 of the specification
  describes them as probes of device availability whose failure aborts the pass; the
  availability they find is what the handler then reads in \<^verbatim>\<open>_hasCamera\<close> and
  \<^verbatim>\<open>_hasMicrophone\<close>. The getter \<^verbatim>\<open>sceneStore.cameraEduStream\<close> is read as the
  field \<^verbatim>\<open>_cameraEduStream\<close>.
\<close>

definition camera_step :: "collaborators \<Rightarrow> middle_room_store \<Rightarrow> run" where
  "camera_step env s =
     (case cameraEduStream (sceneStore s) of
        None \<Rightarrow> (Inl TypeError, s, [])
      | Some st \<Rightarrow> if hasVideo st then await env OpenCamera s else await env CloseCamera s)"

definition microphone_step :: "collaborators \<Rightarrow> middle_room_store \<Rightarrow> run" where
  "microphone_step env s =
     (case cameraEduStream (sceneStore s) of
        None \<Rightarrow> (Inl TypeError, s, [])
      | Some st \<Rightarrow> if hasAudio st then await env OpenMicrophone s else await env CloseMicrophone s)"

text \<open>The branch for \<^verbatim>\<open>evt.type === 'main'\<close> (lines 422-457).\<close>

definition main_branch :: "collaborators \<Rightarrow> middle_room_store \<Rightarrow> run" where
  "main_branch env s =
     (let offline = (Inr (), s\<lparr> sceneStore := (sceneStore s)\<lparr> cameraEduStream := None \<rparr> \<rparr>, [])
      in case getLocalStreamData env of
           None \<Rightarrow> offline
         | Some localStream \<Rightarrow>
             if sd_state localStream \<noteq> 0 then
               then_run
                 (await env PrepareCamera
                    (s\<lparr> sceneStore :=
                          (sceneStore s)\<lparr> cameraEduStream := Some (sd_stream localStream) \<rparr> \<rparr>))
                 (\<lambda>s1. then_run
                    (await env PrepareMicrophone
                       (s1\<lparr> sceneStore := (sceneStore s1)\<lparr> hasCamera := cameraProbe env \<rparr> \<rparr>))
                    (\<lambda>s2. let s3 = s2\<lparr> sceneStore :=
                                        (sceneStore s2)\<lparr> hasMicrophone := microphoneProbe env \<rparr> \<rparr>
                          in if joiningRTC (sceneStore s3) then
                               then_run
                                 (if hasCamera (sceneStore s3) then camera_step env s3
                                  else (Inr (), s3, []))
                                 (\<lambda>s4. if hasMicrophone (sceneStore s4) then microphone_step env s4
                                       else (Inr (), s4, []))
                             else (Inr (), s3, [])))
             else offline)"

text \<open>The branch for \<^verbatim>\<open>evt.type === 'screen'\<close> (lines 459-472).\<close>

definition screen_branch :: "collaborators \<Rightarrow> middle_room_store \<Rightarrow> middle_room_store" where
  "screen_branch env s =
     (if userRole env = ''teacher'' then
        (let absent = s\<lparr> sceneStore := (sceneStore s)\<lparr> screenEduStream := None, sharing := False \<rparr> \<rparr>
         in case getLocalScreenData env of
              None \<Rightarrow> absent
            | Some screenStream \<Rightarrow>
                if sd_state screenStream \<noteq> 0 then
                  s\<lparr> sceneStore := (sceneStore s)\<lparr> screenEduStream := Some (sd_stream screenStream),
                                                   sharing := True \<rparr> \<rparr>
                else absent)
      else s)"

text \<open>
  The body that the handler hands to \<^verbatim>\<open>mutex.dispatch\<close> (lines 416-476), for an
  event of type \<open>evt_type\<close>.
\<close>

definition local_stream_updated :: "collaborators \<Rightarrow> string \<Rightarrow> middle_room_store \<Rightarrow> run" where
  "local_stream_updated env evt_type s =
     (if \<not> joiningRTC (sceneStore s) then (Inr (), s, [])
      else then_run
             (if evt_type = ''main'' then main_branch env s else (Inr (), s, []))
             (\<lambda>s1. (Inr (), (if evt_type = ''screen'' then screen_branch env s1 else s1), [])))"

subsection \<open>The remote stream handlers\<close>

text \<open>
  The handlers of \<^verbatim>\<open>remote-stream-added\<close>, \<^verbatim>\<open>remote-stream-removed\<close> and
  \<^verbatim>\<open>remote-stream-updated\<close> (lines 500-540) have the same body.
\<close>

definition remote_stream_body :: "collaborators \<Rightarrow> middle_room_store \<Rightarrow> middle_room_store" where
  "remote_stream_body env s =
     (let s1 = s\<lparr> sceneStore := (sceneStore s)\<lparr> streamList := getFullStreamList env \<rparr> \<rparr>
      in if userRole env \<noteq> ''teacher'' then
           (if find (\<lambda>it. videoSourceType it = Screen) (streamList (sceneStore s1)) \<noteq> None
            then s1\<lparr> sceneStore := (sceneStore s1)\<lparr> sharing := True \<rparr> \<rparr>
            else s1\<lparr> sceneStore := (sceneStore s1)\<lparr> sharing := False \<rparr> \<rparr>)
         else s1)"

definition remote_stream_added :: "collaborators \<Rightarrow> middle_room_store \<Rightarrow> middle_room_store" where
  "remote_stream_added = remote_stream_body"

definition remote_stream_removed :: "collaborators \<Rightarrow> middle_room_store \<Rightarrow> middle_room_store" where
  "remote_stream_removed = remote_stream_body"

definition remote_stream_updated :: "collaborators \<Rightarrow> middle_room_store \<Rightarrow> middle_room_store" where
  "remote_stream_updated = remote_stream_body"

subsection \<open>The classroom-property-updated handler\<close>

definition addChatMessage :: "chat_message \<Rightarrow> middle_room_store \<Rightarrow> middle_room_store" where
  "addChatMessage args s = s\<lparr> roomChatMessages := roomChatMessages s @ [args] \<rparr>"

text \<open>The marker that the handler appends when a recording ends (lines 587-594).\<close>

definition system_message :: "collaborators \<Rightarrow> middle_room_store \<Rightarrow> chat_message" where
  "system_message env s =
     \<lparr> cm_id = ''system'', ts = now env, cm_text = '''', account = ''system'',
       link = Some (roomUuid (sceneStore s)), sender = False \<rparr>"

text \<open>Lines 580-599: the recording flag.\<close>

definition record_part :: "collaborators \<Rightarrow> classroom \<Rightarrow> middle_room_store \<Rightarrow> middle_room_store" where
  "record_part env c s =
     (case recordNs (cr_roomProperties c) of
        None \<Rightarrow> s
      | Some r \<Rightarrow>
          if rec_state r = 1 then s\<lparr> sceneStore := (sceneStore s)\<lparr> recordState := True \<rparr> \<rparr>
          else if rec_state r = 0 \<and> recordState (sceneStore s) then
            (let s1 = addChatMessage (system_message env s) s
             in s1\<lparr> sceneStore := (sceneStore s1)\<lparr> recordState := False, recordId := '''' \<rparr> \<rparr>)
          else s)"

text \<open>Lines 600-613: the class state and the session clock.\<close>

definition class_state_part :: "classroom \<Rightarrow> middle_room_store \<Rightarrow> middle_room_store" where
  "class_state_part c s =
     (let newClassState = courseState (roomStatus c);
          start = get_or (status_startTime (roomStatus c)) 0
      in if classState (sceneStore s) \<noteq> newClassState then
           (let s1 = s\<lparr> sceneStore := (sceneStore s)\<lparr> classState := newClassState \<rparr> \<rparr>
            in if classState (sceneStore s1) = 1 then
                 s1\<lparr> sceneStore := (sceneStore s1)\<lparr> startTime := start \<rparr>,
                     intervals := addInterval ''timer''
                                    \<lparr> tick_startTime = start, tick_ms = ms \<rparr> (intervals s1) \<rparr>
               else
                 s1\<lparr> sceneStore := (sceneStore s1)\<lparr> startTime := start \<rparr>,
                     intervals := delInterval ''timer'' (intervals s1) \<rparr>)
         else s)"

text \<open>The whole handler (lines 575-641).\<close>

definition classroom_property_updated ::
  "collaborators \<Rightarrow> classroom \<Rightarrow> middle_room_store \<Rightarrow> middle_room_store" where
  "classroom_property_updated env c s =
     (let s1 = s\<lparr> roomProperties := cr_roomProperties c \<rparr>;
          s2 = record_part env c s1;
          s3 = class_state_part c s2;
          s4 = s3\<lparr> sceneStore :=
                     (sceneStore s3)\<lparr> isMuted := \<not> isStudentChatAllowed (roomStatus c) \<rparr> \<rparr>
      in s4\<lparr> roomProperties := cr_roomProperties c \<rparr>)"

section \<open>What the operations are expected to issue\<close>

text \<open>The number of stage slots that hold a group id.\<close>

definition stage_occupancy :: "middle_room_store \<Rightarrow> nat" where
  "stage_occupancy s =
     length (filter (\<lambda>g. g \<noteq> '''') [g1 (platformState s), g2 (platformState s)])"

text \<open>The stream batches of a group: publishing every member, and unpublishing every member.\<close>

definition upsert_batch :: "user_group \<Rightarrow> call" where
  "upsert_batch grp =
     BatchUpsertStream
       (map (\<lambda>item. StreamType (userUuid item) (streamUuid item) (userUuid item @ ''stream'') 1 1 1 1)
            (members grp))"

definition delete_batch :: "user_group \<Rightarrow> call" where
  "delete_batch grp =
     BatchDeleteStream
       (map (\<lambda>item. DeleteStreamType (userUuid item) (streamUuid item)) (members grp))"

text \<open>The property update that seats group \<open>gid\<close> in slot \<open>t\<close>.\<close>

definition seat_update :: "string \<Rightarrow> string \<Rightarrow> call" where
  "seat_update t gid =
     UpdateRoomBatchProperties
       [(''groupStates.state'', PNum 1),
        (''groupStates.interactInGroup'', PNum 0),
        (''groupStates.interactOutGroup'', PNum 1),
        (''interactOutGroups.'' @ t, PStr gid)] ''104''"

text \<open>
  The property update that clears slot \<open>t\<close>; when \<open>last_one\<close> holds it also sets the
  out-of-group flag to 0, and otherwise it does not mention the flag.
\<close>

definition unseat_update :: "string \<Rightarrow> bool \<Rightarrow> call" where
  "unseat_update t last_one =
     UpdateRoomBatchProperties
       ((if last_one then [(''groupStates.interactOutGroup'', PNum 0)] else [])
        @ [(''interactOutGroups.'' @ t, PStr '''')]) ''104''"

text \<open>
  Two calls awaited one after the other in store \<open>s\<close>: the second is issued only when
  the first resolved, and the store is not written.
\<close>

definition two_awaits :: "collaborators \<Rightarrow> middle_room_store \<Rightarrow> call \<Rightarrow> call \<Rightarrow> run" where
  "two_awaits env s a b =
     (if throws env a then (Inl (Rejected a), s, [a])
      else if throws env b then (Inl (Rejected b), s, [a, b])
      else (Inr (), s, [a, b]))"

text \<open>One reward entry per member, in the order of the members.\<close>

definition star_entries :: "user_group \<Rightarrow> properties" where
  "star_entries grp =
     map (\<lambda>stu. (reward_path (userUuid stu), PNum (reward stu + 1))) (members grp)"

text \<open>Whether a local screen descriptor is present and not offline.\<close>

definition screen_online :: "stream_data option \<Rightarrow> bool" where
  "screen_online d = (case d of None \<Rightarrow> False | Some x \<Rightarrow> sd_state x \<noteq> 0)"

text \<open>The device calls that open or close the camera or the microphone.\<close>

definition is_open_close :: "call \<Rightarrow> bool" where
  "is_open_close c \<longleftrightarrow> c \<in> {OpenCamera, CloseCamera, OpenMicrophone, CloseMicrophone}"

section \<open>Sample sessions\<close>

text \<open>
  The store as its field initialisers leave it (lines 108, 188-202, 236-239, 1106-1117,
  1290, 1328), over a scene store that is not attached to the transport.
\<close>

definition fresh_scene :: scene_store where
  "fresh_scene =
     \<lparr> joiningRTC = False, cameraEduStream = None, screenEduStream = None,
       hasCamera = False, hasMicrophone = False, sharing = False, recordState = False,
       recordId = '''', classState = 0, startTime = 0, isMuted = False, streamList = [],
       roomUuid = ''room-1'', roomManagerDefined = True \<rparr>"

definition fresh_store :: middle_room_store where
  "fresh_store =
     \<lparr> quit = False, roomChatMessages = [], unreadMessageCount = 0, messages = [],
       userGroups = [], pkList = [], notice = None, roomProperties = initial_roomProperties,
       joined = False, groupingSolution = 0, intervals = Map.empty, sceneStore = fresh_scene \<rparr>"

text \<open>Collaborators with which no call rejects; the local user is the teacher.\<close>

definition calm :: collaborators where
  "calm =
     \<lparr> throws = (\<lambda>c. False), getLocalStreamData = None, getLocalScreenData = None,
       getFullStreamList = [], cameraProbe = True, microphoneProbe = True,
       sceneReset = (\<lambda>sc. sc), now = 1000, userRole = ''teacher'' \<rparr>"

text \<open>A store whose stage slots hold \<open>a\<close> and \<open>b\<close> (the empty string is a free slot).\<close>

definition on_stage :: "string \<Rightarrow> string \<Rightarrow> middle_room_store" where
  "on_stage a b =
     fresh_store\<lparr> roomProperties :=
       initial_roomProperties\<lparr> interactOutGroups := [''g1'' \<mapsto> a, ''g2'' \<mapsto> b] \<rparr> \<rparr>"

definition ann :: group_member where
  "ann = \<lparr> userUuid = ''u1'', userName = ''Ann'', reward = 0, streamUuid = ''s1'', offline = False \<rparr>"

definition bob :: group_member where
  "bob = \<lparr> userUuid = ''u2'', userName = ''Bob'', reward = 4, streamUuid = ''s2'', offline = False \<rparr>"

definition group_one :: user_group where
  "group_one = \<lparr> groupName = ''group1'', groupUuid = ''group_id_1'', members = [ann, bob] \<rparr>"

definition group_three :: user_group where
  "group_three = \<lparr> groupName = ''group3'', groupUuid = ''group_id_3'', members = [bob] \<rparr>"

text \<open>A member whose cached reward is \<open>2 ^ 53\<close>, and the group of that member.\<close>

definition cyd :: group_member where
  "cyd = \<lparr> userUuid = ''u3'', userName = ''Cyd'', reward = 9007199254740992,
           streamUuid = ''s3'', offline = False \<rparr>"

definition group_four :: user_group where
  "group_four = \<lparr> groupName = ''group4'', groupUuid = ''group_id_4'', members = [cyd] \<rparr>"

text \<open>A joined session whose class is running and whose clock ticks.\<close>

definition running_store :: middle_room_store where
  "running_store =
     (on_stage ''group_id_1'' '''')
       \<lparr> joined := True,
         intervals := [''timer'' \<mapsto> \<lparr> tick_startTime = 0, tick_ms = 500 \<rparr>],
         sceneStore := fresh_scene\<lparr> classState := 1 \<rparr> \<rparr>"

text \<open>Collaborators whose \<^verbatim>\<open>leaveRtc()\<close> rejects.\<close>

definition rtc_leave_fails :: collaborators where
  "rtc_leave_fails = calm\<lparr> throws := (\<lambda>c. c = LeaveRtc) \<rparr>"

text \<open>A room manager whose full stream list holds one screen stream.\<close>

definition screen_on_air :: collaborators where
  "screen_on_air = calm\<lparr> getFullStreamList := [EduStream ''9'' ''t2'' Screen True False] \<rparr>"

text \<open>A teacher whose own screen stream is online.\<close>

definition screen_shared :: collaborators where
  "screen_shared =
     calm\<lparr> getLocalScreenData := Some (StreamData 1 (EduStream ''8'' ''t1'' Screen True False)) \<rparr>"

text \<open>A session attached to the transport, and a main stream that is online.\<close>

definition attached_store :: middle_room_store where
  "attached_store = fresh_store\<lparr> sceneStore := fresh_scene\<lparr> joiningRTC := True \<rparr> \<rparr>"

definition camera_online :: collaborators where
  "camera_online =
     calm\<lparr> getLocalStreamData := Some (StreamData 1 (EduStream ''7'' ''t1'' Camera True True)) \<rparr>"

text \<open>Snapshots: a recording that has stopped, a class that runs, a class that has ended.\<close>

definition recording_stopped :: classroom where
  "recording_stopped =
     Classroom (initial_roomProperties\<lparr> recordNs := Some (RecordProp 0 ''rec-9'') \<rparr>)
               (RoomStatus 0 None True)"

definition class_running :: classroom where
  "class_running = Classroom initial_roomProperties (RoomStatus 1 (Some 42) True)"

definition class_ended :: classroom where
  "class_ended = Classroom initial_roomProperties (RoomStatus 2 (Some 42) True)"

definition recording_store :: middle_room_store where
  "recording_store =
     fresh_store\<lparr> sceneStore := fresh_scene\<lparr> recordState := True, recordId := ''rec-9'' \<rparr> \<rparr>"

section \<open>Auxiliary facts\<close>

lemma await_all_two:
  "(case await_all thr [a, b] of (r, tr) \<Rightarrow> (r, s, tr)) =
     (if thr a then (Inl (Rejected a), s, [a])
      else if thr b then (Inl (Rejected b), s, [a, b])
      else (Inr (), s, [a, b]))"
  by simp

lemma assign_fresh:
  "k \<notin> fst ` set ps \<Longrightarrow> assign ps k v = ps @ [(k, v)]"
  by (induction ps) auto

lemma map_fst_assign:
  "map fst (assign ps k v) = (if k \<in> fst ` set ps then map fst ps else map fst ps @ [k])"
  by (induction ps) force+

lemma assign_keys: "fst ` set (assign ps k v) = insert k (fst ` set ps)"
proof -
  have "set (map fst (assign ps k v)) = insert k (set (map fst ps))"
    unfolding map_fst_assign by auto
  then show ?thesis by simp
qed

lemma assign_distinct: "distinct (map fst ps) \<Longrightarrow> distinct (map fst (assign ps k v))"
  unfolding map_fst_assign by auto

text \<open>
  Filling a patch from a list whose keys are pairwise different, none of them in the
  patch yet, appends one entry per element, in order.
\<close>

lemma fold_assign_distinct:
  "distinct (map key xs) \<Longrightarrow> key ` set xs \<inter> fst ` set acc = {} \<Longrightarrow>
   fold (\<lambda>x ps. assign ps (key x) (val x)) xs acc = acc @ map (\<lambda>x. (key x, val x)) xs"
proof (induction xs arbitrary: acc)
  case Nil
  then show ?case by simp
next
  case (Cons x xs)
  have fresh: "key x \<notin> fst ` set acc" using Cons.prems(2) by auto
  have d: "distinct (map key xs)" and nx: "key x \<notin> key ` set xs"
    using Cons.prems(1) by auto
  have disj: "key ` set xs \<inter> fst ` set (acc @ [(key x, val x)]) = {}"
    using Cons.prems(2) nx by auto
  show ?case
    using Cons.IH [OF d disj] by (simp add: assign_fresh [OF fresh])
qed

lemma fold_assign_keys:
  "fst ` set (fold (\<lambda>x ps. assign ps (key x) (val x)) xs acc) = key ` set xs \<union> fst ` set acc"
  by (induction xs arbitrary: acc) (auto simp: assign_keys)

lemma fold_assign_keys_distinct:
  "distinct (map fst acc) \<Longrightarrow>
   distinct (map fst (fold (\<lambda>x ps. assign ps (key x) (val x)) xs acc))"
  by (induction xs arbitrary: acc) (auto simp: assign_distinct)

lemma reward_path_inj: "reward_path a = reward_path b \<longleftrightarrow> a = b"
  by (simp add: reward_path_def)

lemma distinct_reward_paths:
  "distinct (map userUuid xs) \<Longrightarrow> distinct (map (\<lambda>stu. reward_path (userUuid stu)) xs)"
  by (induction xs) (auto simp: reward_path_inj)

lemma find_screen:
  "(find (\<lambda>it. videoSourceType it = Screen) xs \<noteq> None)
     = (\<exists>it \<in> set xs. videoSourceType it = Screen)"
  by (auto simp: find_None_iff)

text \<open>The main branch writes neither the sharing flag nor the attachment flag.\<close>

lemma main_branch_sharing:
  "sharing (sceneStore (fst (snd (main_branch env s)))) = sharing (sceneStore s)"
  by (auto simp: main_branch_def then_run_def await_def camera_step_def microphone_step_def
        Let_def split: option.splits)

lemma main_branch_joining:
  "joiningRTC (sceneStore (fst (snd (main_branch env s)))) = joiningRTC (sceneStore s)"
  by (auto simp: main_branch_def then_run_def await_def camera_step_def microphone_step_def
        Let_def split: option.splits)

text \<open>Each branch, run again on the store it produced, does what it did the first time.\<close>

lemma main_branch_twice:
  "main_branch env (fst (snd (main_branch env s))) = main_branch env s"
  by (auto simp: main_branch_def then_run_def await_def camera_step_def microphone_step_def
        Let_def split: option.splits)

lemma screen_branch_twice:
  "screen_branch env (screen_branch env s) = screen_branch env s"
  by (auto simp: screen_branch_def Let_def split: option.splits)

lemma screen_branch_joining:
  "joiningRTC (sceneStore (screen_branch env s)) = joiningRTC (sceneStore s)"
  by (auto simp: screen_branch_def Let_def split: option.splits)

text \<open>
  What \<^verbatim>\<open>leave\<close> does to the clock: it removes the timer when every step resolves,
  and leaves the timers as they were when one of them rejects.
\<close>

lemma leave_timer_when_steps_resolve:
  "(\<forall>c. \<not> throws env c) \<Longrightarrow> intervals (fst (snd (leave env s))) ''timer'' = None"
  by (simp add: leave_def reset_def delInterval_def Let_def)

lemma leave_timer_when_a_step_rejects:
  "throws env LeaveRtc \<or> throws env BoardLeave \<or> throws env Logout
     \<or> (roomManagerDefined (sceneStore s) \<and> throws env RoomManagerLeave)
   \<Longrightarrow> intervals (fst (snd (leave env s))) = intervals s"
  by (auto simp: leave_def reset_def Let_def)

text \<open>Whole numbers up to \<open>2 ^ 53\<close> in magnitude are doubles, so adding 1 within them is exact.\<close>

lemma excess_small: "a < 2 ^ 53 \<Longrightarrow> excess a = 0"
  by (simp add: excess.simps [of a])

lemma excess_large: "2 ^ 53 \<le> a \<Longrightarrow> excess a = Suc (excess (a div 2))"
  by (simp add: excess.simps [of a])

lemma round_double_small: "\<bar>n\<bar> < 2 ^ 53 \<Longrightarrow> round_double n = n"
proof -
  assume small: "\<bar>n\<bar> < 2 ^ 53"
  then have "excess \<bar>n\<bar> = 0" by (rule excess_small)
  then have "round_double n = sgn n * \<bar>n\<bar>"
    by (simp add: round_double_def Let_def)
  then show ?thesis by (simp add: mult_sgn_abs)
qed

lemma round_double_2_53: "round_double (2 ^ 53) = 2 ^ 53"
  by (simp add: round_double_def Let_def excess_small excess_large)

lemma js_add_one_exact:
  "- (2 ^ 53) \<le> r \<Longrightarrow> r < 2 ^ 53 \<Longrightarrow> js_add r 1 = r + 1"
proof -
  assume lo: "- (2 ^ 53) \<le> r" and hi: "r < 2 ^ 53"
  show ?thesis
  proof (cases "r + 1 = 2 ^ 53")
    case True
    then show ?thesis using round_double_2_53 by (simp add: js_add_def)
  next
    case False
    with lo hi have "\<bar>r + 1\<bar> < 2 ^ 53" by simp
    then show ?thesis by (simp add: js_add_def round_double_small)
  qed
qed

text \<open>Beyond them the sum is rounded: \<open>2 ^ 53 + 1\<close> is not a double.\<close>

lemma js_add_one_at_2_53: "js_add 9007199254740992 1 = 9007199254740992"
  by (simp add: js_add_def round_double_def Let_def excess_small excess_large)

section \<open>Stage seating\<close>

text \<open>
  C2. The stage never holds more than two groups: in every store at most two of the slots
  \<^verbatim>\<open>interactOutGroups.g1\<close> and \<^verbatim>\<open>interactOutGroups.g2\<close> hold a group id. When both
  slots are occupied and the group is in neither, \<^verbatim>\<open>clickPlatform\<close> returns without
  issuing a property update or a stream batch call. When the group is in neither slot and
  a slot is free, it publishes every member's stream and then writes the group id into the
  first free slot, \<^verbatim>\<open>g1\<close> before \<^verbatim>\<open>g2\<close>; the property update is issued once the
  stream batch has resolved.
\<close>

theorem clickPlatform_capacity:
  "stage_occupancy s \<le> 2
   \<and> (g1 (platformState s) \<noteq> '''' \<and> g2 (platformState s) \<noteq> ''''
        \<and> g1 (platformState s) \<noteq> groupUuid grp \<and> g2 (platformState s) \<noteq> groupUuid grp
      \<longrightarrow> clickPlatform env s grp = (Inr (), s, []))
   \<and> (g1 (platformState s) \<noteq> groupUuid grp \<and> g2 (platformState s) \<noteq> groupUuid grp
        \<and> \<not> (g1 (platformState s) \<noteq> '''' \<and> g2 (platformState s) \<noteq> '''')
      \<longrightarrow> clickPlatform env s grp =
            two_awaits env s (upsert_batch grp)
              (seat_update (if g1 (platformState s) = '''' then ''g1'' else ''g2'') (groupUuid grp)))"
proof (intro conjI impI)
  show "stage_occupancy s \<le> 2"
    by (simp add: stage_occupancy_def)
next
  assume "g1 (platformState s) \<noteq> '''' \<and> g2 (platformState s) \<noteq> ''''
        \<and> g1 (platformState s) \<noteq> groupUuid grp \<and> g2 (platformState s) \<noteq> groupUuid grp"
  then show "clickPlatform env s grp = (Inr (), s, [])"
    by (simp add: clickPlatform_def)
next
  assume "g1 (platformState s) \<noteq> groupUuid grp \<and> g2 (platformState s) \<noteq> groupUuid grp
        \<and> \<not> (g1 (platformState s) \<noteq> '''' \<and> g2 (platformState s) \<noteq> '''')"
  then show "clickPlatform env s grp =
            two_awaits env s (upsert_batch grp)
              (seat_update (if g1 (platformState s) = '''' then ''g1'' else ''g2'') (groupUuid grp))"
    unfolding clickPlatform_def two_awaits_def upsert_batch_def seat_update_def Let_def
    by (simp only: await_all_two) auto
qed

theorem clickPlatform_capacity_witness:
  "stage_occupancy (on_stage ''group_id_1'' ''group_id_2'') \<le> 2
   \<and> clickPlatform calm (on_stage ''group_id_1'' ''group_id_2'') group_three
       = (Inr (), on_stage ''group_id_1'' ''group_id_2'', [])
   \<and> clickPlatform calm (on_stage ''group_id_1'' '''') group_three
       = (Inr (), on_stage ''group_id_1'' '''',
          [BatchUpsertStream [StreamType ''u2'' ''s2'' ''u2stream'' 1 1 1 1],
           UpdateRoomBatchProperties
             [(''groupStates.state'', PNum 1),
              (''groupStates.interactInGroup'', PNum 0),
              (''groupStates.interactOutGroup'', PNum 1),
              (''interactOutGroups.g2'', PStr ''group_id_3'')] ''104''])
   \<and> clickPlatform calm (on_stage '''' ''group_id_1'') group_three
       = (Inr (), on_stage '''' ''group_id_1'',
          [BatchUpsertStream [StreamType ''u2'' ''s2'' ''u2stream'' 1 1 1 1],
           UpdateRoomBatchProperties
             [(''groupStates.state'', PNum 1),
              (''groupStates.interactInGroup'', PNum 0),
              (''groupStates.interactOutGroup'', PNum 1),
              (''interactOutGroups.g1'', PStr ''group_id_3'')] ''104''])"
  using clickPlatform_capacity [of "on_stage ''group_id_1'' ''group_id_2''" group_three calm]
        clickPlatform_capacity [of "on_stage ''group_id_1'' ''''" group_three calm]
        clickPlatform_capacity [of "on_stage '''' ''group_id_1''" group_three calm]
  by (simp add: platformState_def on_stage_def fresh_store_def initial_roomProperties_def
        get_or_def group_three_def bob_def calm_def two_awaits_def upsert_batch_def
        seat_update_def Let_def)

text \<open>
  C3. When \<^verbatim>\<open>clickPlatform\<close> is called for a group that occupies a slot, it issues one
  property update that clears that slot, and then, once the update has resolved, a batch
  stream deletion with one entry for every member of the group. If the other slot is empty,
  the same property update also sets \<^verbatim>\<open>groupStates.interactOutGroup\<close> to 0; if the
  other slot is occupied, the update does not mention that flag.
\<close>

theorem clickPlatform_leaves_stage:
  "(g1 (platformState s) = groupUuid grp
      \<longrightarrow> clickPlatform env s grp =
            two_awaits env s (unseat_update ''g1'' (g2 (platformState s) = '''')) (delete_batch grp))
   \<and> (g1 (platformState s) \<noteq> groupUuid grp \<and> g2 (platformState s) = groupUuid grp
      \<longrightarrow> clickPlatform env s grp =
            two_awaits env s (unseat_update ''g2'' (g1 (platformState s) = '''')) (delete_batch grp))"
  unfolding clickPlatform_def two_awaits_def unseat_update_def delete_batch_def Let_def
  by (simp only: await_all_two) auto

theorem clickPlatform_leaves_stage_witness:
  "clickPlatform calm (on_stage ''group_id_1'' '''') group_one
     = (Inr (), on_stage ''group_id_1'' '''',
        [UpdateRoomBatchProperties
           [(''groupStates.interactOutGroup'', PNum 0), (''interactOutGroups.g1'', PStr '''')]
           ''104'',
         BatchDeleteStream [DeleteStreamType ''u1'' ''s1'', DeleteStreamType ''u2'' ''s2'']])
   \<and> clickPlatform calm (on_stage ''group_id_1'' ''group_id_2'') group_one
     = (Inr (), on_stage ''group_id_1'' ''group_id_2'',
        [UpdateRoomBatchProperties [(''interactOutGroups.g1'', PStr '''')] ''104'',
         BatchDeleteStream [DeleteStreamType ''u1'' ''s1'', DeleteStreamType ''u2'' ''s2'']])
   \<and> clickPlatform calm (on_stage ''group_id_2'' ''group_id_1'') group_one
     = (Inr (), on_stage ''group_id_2'' ''group_id_1'',
        [UpdateRoomBatchProperties [(''interactOutGroups.g2'', PStr '''')] ''104'',
         BatchDeleteStream [DeleteStreamType ''u1'' ''s1'', DeleteStreamType ''u2'' ''s2'']])
   \<and> clickPlatform calm (on_stage '''' ''group_id_1'') group_one
     = (Inr (), on_stage '''' ''group_id_1'',
        [UpdateRoomBatchProperties
           [(''groupStates.interactOutGroup'', PNum 0), (''interactOutGroups.g2'', PStr '''')]
           ''104'',
         BatchDeleteStream [DeleteStreamType ''u1'' ''s1'', DeleteStreamType ''u2'' ''s2'']])"
  using clickPlatform_leaves_stage [of "on_stage ''group_id_1'' ''''" group_one calm]
        clickPlatform_leaves_stage [of "on_stage ''group_id_1'' ''group_id_2''" group_one calm]
        clickPlatform_leaves_stage [of "on_stage ''group_id_2'' ''group_id_1''" group_one calm]
        clickPlatform_leaves_stage [of "on_stage '''' ''group_id_1''" group_one calm]
  by (simp add: platformState_def on_stage_def fresh_store_def initial_roomProperties_def
        get_or_def group_one_def ann_def bob_def calm_def two_awaits_def unseat_update_def
        delete_batch_def Let_def)

section \<open>Group rewards\<close>

text \<open>
  C4, as the specification states it, asks that every entry of the patch of
  \<^verbatim>\<open>addGroupStar\<close> sets the reward to the member's cached reward plus 1. The sum
  \<^verbatim>\<open>stu.reward + 1\<close> is a sum of doubles: for a member whose cached reward is
  \<open>2 ^ 53\<close> the entry carries \<open>2 ^ 53\<close> again, not \<open>2 ^ 53 + 1\<close>.
\<close>

theorem addGroupStar_reward_2_53:
  "members group_four = [cyd]
   \<and> reward cyd = 9007199254740992
   \<and> addGroupStar calm fresh_store group_four
       = (Inr (), fresh_store,
          [UpdateRoomBatchProperties [(''students.u3.reward'', PNum 9007199254740992)] ''202''])"
  by (simp add: addGroupStar_def group_four_def cyd_def calm_def reward_path_def Let_def
        js_add_one_at_2_53)

text \<open>
  C4, amended. One invocation of \<^verbatim>\<open>addGroupStar\<close> issues exactly one property update,
  with cause 202, and leaves the store as it was; the keys of its patch are pairwise
  different and are exactly the reward paths of the members. For a group of N members, N
  different users, whose cached rewards are whole numbers from \<open>- (2 ^ 53)\<close> up to
  \<open>2 ^ 53 - 1\<close>, the patch has exactly N entries, the entry of a member setting
  \<^verbatim>\<open>students.<userUuid>.reward\<close> to that member's cached reward plus 1.
\<close>

theorem addGroupStar_batch:
  "(\<exists>p. addGroupStar env s grp = await env (UpdateRoomBatchProperties p ''202'') s
        \<and> fst ` set p = (\<lambda>stu. reward_path (userUuid stu)) ` set (members grp)
        \<and> distinct (map fst p))
   \<and> (distinct (map userUuid (members grp))
        \<and> (\<forall>stu \<in> set (members grp). - (2 ^ 53) \<le> reward stu \<and> reward stu < 2 ^ 53)
      \<longrightarrow> addGroupStar env s grp =
            await env (UpdateRoomBatchProperties (star_entries grp) ''202'') s
          \<and> length (star_entries grp) = length (members grp))"
proof (intro conjI impI)
  let ?p = "fold (\<lambda>stu props. assign props (reward_path (userUuid stu))
                                 (PNum (js_add (reward stu) 1)))
                 (members grp) []"
  have run: "addGroupStar env s grp = await env (UpdateRoomBatchProperties ?p ''202'') s"
    by (simp add: addGroupStar_def await_def Let_def)
  have keys: "fst ` set ?p = (\<lambda>stu. reward_path (userUuid stu)) ` set (members grp)"
    using fold_assign_keys [of "\<lambda>stu. reward_path (userUuid stu)"
                               "\<lambda>stu. PNum (js_add (reward stu) 1)" "members grp" "[]"]
    by simp
  have dist: "distinct (map fst ?p)"
    using fold_assign_keys_distinct [of "[]" "\<lambda>stu. reward_path (userUuid stu)"
                                        "\<lambda>stu. PNum (js_add (reward stu) 1)" "members grp"]
    by simp
  from run keys dist
  show "\<exists>p. addGroupStar env s grp = await env (UpdateRoomBatchProperties p ''202'') s
        \<and> fst ` set p = (\<lambda>stu. reward_path (userUuid stu)) ` set (members grp)
        \<and> distinct (map fst p)"
    by blast
  show "length (star_entries grp) = length (members grp)"
    by (simp add: star_entries_def)
  assume h: "distinct (map userUuid (members grp))
        \<and> (\<forall>stu \<in> set (members grp). - (2 ^ 53) \<le> reward stu \<and> reward stu < 2 ^ 53)"
  then have d: "distinct (map userUuid (members grp))" by simp
  have exact: "map (\<lambda>stu. (reward_path (userUuid stu), PNum (js_add (reward stu) 1))) (members grp)
                 = star_entries grp"
    unfolding star_entries_def using h by (simp add: js_add_one_exact)
  have "?p = map (\<lambda>stu. (reward_path (userUuid stu), PNum (js_add (reward stu) 1))) (members grp)"
    using fold_assign_distinct [of "\<lambda>stu. reward_path (userUuid stu)" "members grp" "[]"
                                   "\<lambda>stu. PNum (js_add (reward stu) 1)"]
          distinct_reward_paths [OF d]
    by simp
  with exact run show "addGroupStar env s grp =
            await env (UpdateRoomBatchProperties (star_entries grp) ''202'') s"
    by simp
qed

theorem addGroupStar_batch_witness:
  "distinct (map userUuid (members group_one))
   \<and> members group_one = [ann, bob]
   \<and> - (2 ^ 53) \<le> reward ann \<and> reward ann < 2 ^ 53
   \<and> - (2 ^ 53) \<le> reward bob \<and> reward bob < 2 ^ 53
   \<and> addGroupStar calm fresh_store group_one
       = (Inr (), fresh_store,
          [UpdateRoomBatchProperties
             [(''students.u1.reward'', PNum 1), (''students.u2.reward'', PNum 5)] ''202''])
   \<and> length (members group_one) = 2"
proof -
  have d: "distinct (map userUuid (members group_one))
           \<and> (\<forall>stu \<in> set (members group_one). - (2 ^ 53) \<le> reward stu \<and> reward stu < 2 ^ 53)"
    by (simp add: group_one_def ann_def bob_def)
  from addGroupStar_batch [of calm fresh_store group_one] d
  have "addGroupStar calm fresh_store group_one
          = await calm (UpdateRoomBatchProperties (star_entries group_one) ''202'') fresh_store"
    by blast
  then show ?thesis
    using d
    by (simp add: await_def calm_def star_entries_def group_one_def ann_def bob_def
          reward_path_def)
qed

section \<open>The property snapshot\<close>

text \<open>
  C5. When a snapshot carries \<^verbatim>\<open>record.state\<close> 0 and the cached recording flag is
  true, the handler appends exactly one chat message, the system marker, sets the recording
  flag to false and the cached record id to the empty string. When the snapshot carries
  \<^verbatim>\<open>record.state\<close> 0 and the cached flag is already false, the chat log and the record
  id are as before.
\<close>

theorem recording_stopped_marker:
  "recordNs (cr_roomProperties c) = Some r \<and> rec_state r = 0 \<longrightarrow>
     (recordState (sceneStore s) \<longrightarrow>
        roomChatMessages (classroom_property_updated env c s)
          = roomChatMessages s @ [system_message env s]
        \<and> \<not> recordState (sceneStore (classroom_property_updated env c s))
        \<and> recordId (sceneStore (classroom_property_updated env c s)) = '''')
     \<and> (\<not> recordState (sceneStore s) \<longrightarrow>
        roomChatMessages (classroom_property_updated env c s) = roomChatMessages s
        \<and> recordId (sceneStore (classroom_property_updated env c s)) = recordId (sceneStore s)
        \<and> \<not> recordState (sceneStore (classroom_property_updated env c s)))"
  by (simp add: classroom_property_updated_def record_part_def class_state_part_def
        addChatMessage_def system_message_def Let_def)

theorem recording_stopped_marker_witness:
  "recordNs (cr_roomProperties recording_stopped) = Some (RecordProp 0 ''rec-9'')
   \<and> recordState (sceneStore recording_store)
   \<and> roomChatMessages (classroom_property_updated calm recording_stopped recording_store)
       = [\<lparr> cm_id = ''system'', ts = 1000, cm_text = '''', account = ''system'',
            link = Some ''room-1'', sender = False \<rparr>]
   \<and> recordId (sceneStore (classroom_property_updated calm recording_stopped recording_store)) = ''''
   \<and> \<not> recordState (sceneStore fresh_store)
   \<and> roomChatMessages (classroom_property_updated calm recording_stopped fresh_store) = []
   \<and> recordId (sceneStore (classroom_property_updated calm recording_stopped fresh_store)) = ''''"
  using recording_stopped_marker
          [of recording_stopped "RecordProp 0 ''rec-9''" recording_store calm]
        recording_stopped_marker
          [of recording_stopped "RecordProp 0 ''rec-9''" fresh_store calm]
  by (simp add: recording_stopped_def recording_store_def fresh_store_def fresh_scene_def
        system_message_def calm_def)

text \<open>
  C6. On every snapshot: if the new \<^verbatim>\<open>courseState\<close> differs from the cached class
  state and is 1 (running), \<^verbatim>\<open>startTime\<close> is taken from the status block and the
  repeating timer named \<^verbatim>\<open>timer\<close> is started; if it differs and is not running,
  \<^verbatim>\<open>startTime\<close> is recorded and the timer named \<^verbatim>\<open>timer\<close> is removed; if it
  equals the cached state, no timer is started or stopped.
\<close>

theorem class_state_drives_timer:
  "(classState (sceneStore s) \<noteq> courseState (roomStatus c) \<and> courseState (roomStatus c) = 1 \<longrightarrow>
      startTime (sceneStore (classroom_property_updated env c s))
        = get_or (status_startTime (roomStatus c)) 0
      \<and> intervals (classroom_property_updated env c s)
        = addInterval ''timer''
            \<lparr> tick_startTime = get_or (status_startTime (roomStatus c)) 0, tick_ms = ms \<rparr>
            (intervals s)
      \<and> intervals (classroom_property_updated env c s) ''timer''
        = Some \<lparr> tick_startTime = get_or (status_startTime (roomStatus c)) 0, tick_ms = ms \<rparr>)
   \<and> (classState (sceneStore s) \<noteq> courseState (roomStatus c) \<and> courseState (roomStatus c) \<noteq> 1 \<longrightarrow>
      startTime (sceneStore (classroom_property_updated env c s))
        = get_or (status_startTime (roomStatus c)) 0
      \<and> intervals (classroom_property_updated env c s) = delInterval ''timer'' (intervals s)
      \<and> intervals (classroom_property_updated env c s) ''timer'' = None)
   \<and> (classState (sceneStore s) = courseState (roomStatus c) \<longrightarrow>
      intervals (classroom_property_updated env c s) = intervals s
      \<and> startTime (sceneStore (classroom_property_updated env c s)) = startTime (sceneStore s))"
  by (cases "recordNs (cr_roomProperties c)")
     (simp_all add: classroom_property_updated_def record_part_def class_state_part_def
        addChatMessage_def addInterval_def delInterval_def Let_def)

theorem class_state_drives_timer_witness:
  "classState (sceneStore fresh_store) \<noteq> courseState (roomStatus class_running)
   \<and> courseState (roomStatus class_running) = 1
   \<and> startTime (sceneStore (classroom_property_updated calm class_running fresh_store)) = 42
   \<and> intervals (classroom_property_updated calm class_running fresh_store) ''timer''
       = Some \<lparr> tick_startTime = 42, tick_ms = 500 \<rparr>
   \<and> classState (sceneStore running_store) \<noteq> courseState (roomStatus class_ended)
   \<and> courseState (roomStatus class_ended) \<noteq> 1
   \<and> startTime (sceneStore (classroom_property_updated calm class_ended running_store)) = 42
   \<and> intervals (classroom_property_updated calm class_ended running_store) ''timer'' = None
   \<and> classState (sceneStore running_store) = courseState (roomStatus class_running)
   \<and> intervals (classroom_property_updated calm class_running running_store)
       = intervals running_store
   \<and> startTime (sceneStore (classroom_property_updated calm class_running running_store)) = 0"
  using class_state_drives_timer [of fresh_store class_running calm]
        class_state_drives_timer [of running_store class_ended calm]
        class_state_drives_timer [of running_store class_running calm]
  by (simp add: class_running_def class_ended_def running_store_def
        on_stage_def fresh_store_def fresh_scene_def get_or_def ms_def
        addInterval_def delInterval_def)

section \<open>Leaving the session\<close>

text \<open>
  C7. \<^verbatim>\<open>leave\<close> is invoked on a joined session whose clock ticks, and
  \<^verbatim>\<open>leaveRtc()\<close> rejects. Control moves to the \<^verbatim>\<open>catch\<close> block, which resets
  the store and logs the error; \<^verbatim>\<open>delInterval('timer')\<close> sits in the \<^verbatim>\<open>try\<close>
  block after the awaited steps and is not reached. After this invocation the timer named
  \<^verbatim>\<open>timer\<close> is still registered.
\<close>

theorem leave_failure_keeps_timer:
  "intervals running_store ''timer'' = Some \<lparr> tick_startTime = 0, tick_ms = 500 \<rparr>
   \<and> fst (leave rtc_leave_fails running_store) = Inr ()
   \<and> snd (snd (leave rtc_leave_fails running_store)) = [LeaveRtc]
   \<and> intervals (fst (snd (leave rtc_leave_fails running_store))) ''timer''
     = Some \<lparr> tick_startTime = 0, tick_ms = 500 \<rparr>"
  by (simp add: leave_def reset_def rtc_leave_fails_def calm_def running_store_def
        on_stage_def fresh_store_def fresh_scene_def Let_def)

text \<open>
  C9, as the specification states it, asks that after \<^verbatim>\<open>leave\<close> the joined flag and
  the room property tree equal their initial values, like the other session fields. Neither
  \<^verbatim>\<open>reset\<close> nor \<^verbatim>\<open>leave\<close> assigns them: after leaving a joined session whose
  stage holds a group, the joined flag is still true and the property tree still holds the
  group.
\<close>

theorem leave_keeps_joined_and_properties:
  "joined fresh_store = False
   \<and> joined (fst (snd (leave calm running_store))) = True
   \<and> interactOutGroups (roomProperties fresh_store) ''g1'' = None
   \<and> interactOutGroups (roomProperties (fst (snd (leave calm running_store)))) ''g1''
       = Some ''group_id_1''
   \<and> joined (reset calm running_store) = True
   \<and> interactOutGroups (roomProperties (reset calm running_store)) ''g1'' = Some ''group_id_1''"
  by (simp add: leave_def reset_def calm_def running_store_def on_stage_def fresh_store_def
        fresh_scene_def initial_roomProperties_def Let_def)

text \<open>
  C9, amended. After \<^verbatim>\<open>reset\<close>, and after \<^verbatim>\<open>leave\<close> whether or not one of its
  steps rejected, the chat messages, the user groups, the pk list, the messages, the
  notice, the grouping solution and the quit flag have their initial values. The joined
  flag and the room property tree are not written by either and keep the values they had.
\<close>

theorem reset_and_leave_clear:
  "roomChatMessages (reset env s) = [] \<and> userGroups (reset env s) = []
   \<and> pkList (reset env s) = [] \<and> messages (reset env s) = []
   \<and> notice (reset env s) = None \<and> groupingSolution (reset env s) = 0
   \<and> \<not> quit (reset env s)
   \<and> joined (reset env s) = joined s
   \<and> roomProperties (reset env s) = roomProperties s
   \<and> roomChatMessages (fst (snd (leave env s))) = [] \<and> userGroups (fst (snd (leave env s))) = []
   \<and> pkList (fst (snd (leave env s))) = [] \<and> messages (fst (snd (leave env s))) = []
   \<and> notice (fst (snd (leave env s))) = None \<and> groupingSolution (fst (snd (leave env s))) = 0
   \<and> \<not> quit (fst (snd (leave env s)))
   \<and> joined (fst (snd (leave env s))) = joined s
   \<and> roomProperties (fst (snd (leave env s))) = roomProperties s"
proof -
  obtain r tr where a: "await_all (throws env)
      ([LeaveRtc, BoardLeave, Logout]
       @ (if roomManagerDefined (sceneStore s) then [RoomManagerLeave] else [])) = (r, tr)"
    by (cases "await_all (throws env)
      ([LeaveRtc, BoardLeave, Logout]
       @ (if roomManagerDefined (sceneStore s) then [RoomManagerLeave] else []))") blast
  show ?thesis
    by (cases r) (simp_all add: leave_def reset_def Let_def a)
qed

theorem reset_and_leave_clear_witness:
  "roomChatMessages (fst (snd (leave rtc_leave_fails running_store))) = []
   \<and> \<not> quit (fst (snd (leave rtc_leave_fails running_store)))
   \<and> joined (fst (snd (leave rtc_leave_fails running_store)))
   \<and> notice (reset calm running_store) = None
   \<and> joined (reset calm running_store)"
  using reset_and_leave_clear [of rtc_leave_fails running_store]
        reset_and_leave_clear [of calm running_store]
  by (simp add: running_store_def)

section \<open>Screen sharing\<close>

text \<open>
  C8, as the specification states it, asks that for every role the sharing flag follows
  the remote stream list. The three remote stream handlers update the flag only when the
  role is not \<^verbatim>\<open>teacher\<close>: for the teacher, a remote stream list that holds a screen
  stream leaves the flag false.
\<close>

theorem teacher_ignores_remote_screen:
  "userRole screen_on_air = ''teacher''
   \<and> getFullStreamList screen_on_air = [EduStream ''9'' ''t2'' Screen True False]
   \<and> streamList (sceneStore (remote_stream_added screen_on_air fresh_store))
       = [EduStream ''9'' ''t2'' Screen True False]
   \<and> sharing (sceneStore (remote_stream_added screen_on_air fresh_store)) = False"
  by (simp add: remote_stream_added_def remote_stream_body_def screen_on_air_def calm_def
        fresh_store_def fresh_scene_def)

text \<open>
  C8, amended. For every role other than \<^verbatim>\<open>teacher\<close>, after a remote stream-list
  notification (added, removed or updated) the sharing flag equals whether the stream list
  holds a stream whose source type is screen, and the local-stream-updated handler leaves
  the flag as it was. For the role \<^verbatim>\<open>teacher\<close> the remote notifications leave the flag
  as it was, and a local screen-stream update that arrives while the session is attached
  sets it to whether the local screen descriptor is present and not offline; a local update
  of any other type leaves the flag as it was. For every role, a local update that arrives
  while the session is not attached does nothing at all.
\<close>

theorem sharing_by_role:
  "(userRole env \<noteq> ''teacher'' \<longrightarrow>
      sharing (sceneStore (remote_stream_added env s))
        = (\<exists>it \<in> set (getFullStreamList env). videoSourceType it = Screen)
      \<and> sharing (sceneStore (remote_stream_removed env s))
        = (\<exists>it \<in> set (getFullStreamList env). videoSourceType it = Screen)
      \<and> sharing (sceneStore (remote_stream_updated env s))
        = (\<exists>it \<in> set (getFullStreamList env). videoSourceType it = Screen)
      \<and> sharing (sceneStore (fst (snd (local_stream_updated env evt_type s))))
        = sharing (sceneStore s))
   \<and> (userRole env = ''teacher'' \<longrightarrow>
      sharing (sceneStore (remote_stream_added env s)) = sharing (sceneStore s)
      \<and> sharing (sceneStore (remote_stream_removed env s)) = sharing (sceneStore s)
      \<and> sharing (sceneStore (remote_stream_updated env s)) = sharing (sceneStore s)
      \<and> (joiningRTC (sceneStore s) \<longrightarrow>
           sharing (sceneStore (fst (snd (local_stream_updated env ''screen'' s))))
             = screen_online (getLocalScreenData env))
      \<and> (evt_type \<noteq> ''screen'' \<longrightarrow>
           sharing (sceneStore (fst (snd (local_stream_updated env evt_type s))))
             = sharing (sceneStore s)))
   \<and> (\<not> joiningRTC (sceneStore s) \<longrightarrow>
      local_stream_updated env evt_type s = (Inr (), s, []))"
proof (intro conjI impI)
  assume student: "userRole env \<noteq> ''teacher''"
  have body: "sharing (sceneStore (remote_stream_body env s))
        = (\<exists>it \<in> set (getFullStreamList env). videoSourceType it = Screen)"
    unfolding remote_stream_body_def Let_def
    by (simp only: find_screen) (simp add: student)
  show "sharing (sceneStore (remote_stream_added env s))
        = (\<exists>it \<in> set (getFullStreamList env). videoSourceType it = Screen)"
    using body by (simp add: remote_stream_added_def)
  show "sharing (sceneStore (remote_stream_removed env s))
        = (\<exists>it \<in> set (getFullStreamList env). videoSourceType it = Screen)"
    using body by (simp add: remote_stream_removed_def)
  show "sharing (sceneStore (remote_stream_updated env s))
        = (\<exists>it \<in> set (getFullStreamList env). videoSourceType it = Screen)"
    using body by (simp add: remote_stream_updated_def)
  show "sharing (sceneStore (fst (snd (local_stream_updated env evt_type s))))
        = sharing (sceneStore s)"
    using student main_branch_sharing [of env s]
    by (auto simp: local_stream_updated_def then_run_def screen_branch_def
          split: prod.splits sum.splits)
next
  assume teacher: "userRole env = ''teacher''"
  have body: "sharing (sceneStore (remote_stream_body env s)) = sharing (sceneStore s)"
    using teacher by (simp add: remote_stream_body_def Let_def)
  show "sharing (sceneStore (remote_stream_added env s)) = sharing (sceneStore s)"
    using body by (simp add: remote_stream_added_def)
  show "sharing (sceneStore (remote_stream_removed env s)) = sharing (sceneStore s)"
    using body by (simp add: remote_stream_removed_def)
  show "sharing (sceneStore (remote_stream_updated env s)) = sharing (sceneStore s)"
    using body by (simp add: remote_stream_updated_def)
  {
    assume "joiningRTC (sceneStore s)"
    then show "sharing (sceneStore (fst (snd (local_stream_updated env ''screen'' s))))
               = screen_online (getLocalScreenData env)"
      using teacher
      by (simp add: local_stream_updated_def then_run_def screen_branch_def screen_online_def
            Let_def split: option.splits)
  }
  {
    assume "evt_type \<noteq> ''screen''"
    then show "sharing (sceneStore (fst (snd (local_stream_updated env evt_type s))))
               = sharing (sceneStore s)"
      using main_branch_sharing [of env s]
      by (auto simp: local_stream_updated_def then_run_def split: prod.splits sum.splits)
  }
next
  assume "\<not> joiningRTC (sceneStore s)"
  then show "local_stream_updated env evt_type s = (Inr (), s, [])"
    by (simp add: local_stream_updated_def)
qed

theorem sharing_by_role_witness:
  "userRole (screen_on_air\<lparr> userRole := ''student'' \<rparr>) \<noteq> ''teacher''
   \<and> sharing (sceneStore (remote_stream_added (screen_on_air\<lparr> userRole := ''student'' \<rparr>)
                            fresh_store)) = True
   \<and> sharing (sceneStore (remote_stream_removed (calm\<lparr> userRole := ''student'' \<rparr>)
                            fresh_store)) = False
   \<and> userRole screen_shared = ''teacher''
   \<and> joiningRTC (sceneStore attached_store)
   \<and> sharing (sceneStore (fst (snd (local_stream_updated screen_shared ''screen''
                                       attached_store)))) = True
   \<and> sharing (sceneStore (fst (snd (local_stream_updated screen_shared ''main''
                                       attached_store)))) = False
   \<and> sharing (sceneStore (remote_stream_updated screen_on_air attached_store)) = False
   \<and> \<not> joiningRTC (sceneStore fresh_store)
   \<and> local_stream_updated screen_shared ''screen'' fresh_store = (Inr (), fresh_store, [])"
  using sharing_by_role [of "screen_on_air\<lparr> userRole := ''student'' \<rparr>" fresh_store "''main''"]
        sharing_by_role [of "calm\<lparr> userRole := ''student'' \<rparr>" fresh_store "''main''"]
        sharing_by_role [of screen_shared attached_store "''screen''"]
        sharing_by_role [of screen_shared attached_store "''main''"]
        sharing_by_role [of screen_on_air attached_store "''screen''"]
        sharing_by_role [of screen_shared fresh_store "''screen''"]
  by (simp add: screen_on_air_def screen_shared_def calm_def attached_store_def
        fresh_store_def fresh_scene_def screen_online_def)

section \<open>Device reconciliation\<close>

text \<open>
  C10. When the local-stream-updated body runs twice in a row with nothing changed in
  between (the same stream descriptors, the same device availability, the same attachment
  to the transport), the second pass issues no open or close call beyond those of the
  first pass: it has the outcome of the first pass, issues exactly the calls of the first
  pass, in the same order, and leaves the store as the first pass left it. The handler
  awaits each of these calls again; what a repeated open or close does to the device is
  decided in the scene store's \<^verbatim>\<open>openCamera\<close>, \<^verbatim>\<open>closeCamera\<close>,
  \<^verbatim>\<open>openMicrophone\<close> and \<^verbatim>\<open>closeMicrophone\<close>, which are not part of the file.
\<close>

theorem reconciliation_repeats:
  "local_stream_updated env evt_type (fst (snd (local_stream_updated env evt_type s)))
     = local_stream_updated env evt_type s
   \<and> (\<forall>c \<in> set (snd (snd (local_stream_updated env evt_type
                               (fst (snd (local_stream_updated env evt_type s)))))).
         is_open_close c \<longrightarrow> c \<in> set (snd (snd (local_stream_updated env evt_type s))))"
proof -
  have same: "local_stream_updated env evt_type (fst (snd (local_stream_updated env evt_type s)))
     = local_stream_updated env evt_type s"
  proof (cases "joiningRTC (sceneStore s)")
    case False
    then show ?thesis by (simp add: local_stream_updated_def)
  next
    case True
    show ?thesis
    proof (cases "evt_type = ''main''")
      case main: True
      obtain r s' tr where m: "main_branch env s = (r, s', tr)"
        by (cases "main_branch env s") auto
      have j: "joiningRTC (sceneStore s')"
        using main_branch_joining [of env s] True m by simp
      have again: "main_branch env s' = (r, s', tr)"
        using main_branch_twice [of env s] m by simp
      show ?thesis
        using True main m j again
        by (cases r) (simp_all add: local_stream_updated_def then_run_def)
    next
      case other: False
      show ?thesis
        using True other
        by (simp add: local_stream_updated_def then_run_def screen_branch_twice
              screen_branch_joining)
    qed
  qed
  then show ?thesis by simp
qed

theorem reconciliation_repeats_witness:
  "snd (snd (local_stream_updated camera_online ''main'' attached_store))
     = [PrepareCamera, PrepareMicrophone, OpenCamera, OpenMicrophone]
   \<and> snd (snd (local_stream_updated camera_online ''main''
               (fst (snd (local_stream_updated camera_online ''main'' attached_store)))))
     = [PrepareCamera, PrepareMicrophone, OpenCamera, OpenMicrophone]
   \<and> filter is_open_close
         (snd (snd (local_stream_updated camera_online ''main''
                      (fst (snd (local_stream_updated camera_online ''main'' attached_store))))))
     = filter is_open_close
         (snd (snd (local_stream_updated camera_online ''main'' attached_store)))"
proof -
  have first: "snd (snd (local_stream_updated camera_online ''main'' attached_store))
     = [PrepareCamera, PrepareMicrophone, OpenCamera, OpenMicrophone]"
    by (simp add: local_stream_updated_def main_branch_def then_run_def await_def
          camera_step_def microphone_step_def camera_online_def calm_def attached_store_def
          fresh_store_def fresh_scene_def Let_def)
  from reconciliation_repeats [of camera_online "''main''" attached_store]
  have again: "local_stream_updated camera_online ''main''
                 (fst (snd (local_stream_updated camera_online ''main'' attached_store)))
               = local_stream_updated camera_online ''main'' attached_store"
    by blast
  show ?thesis
    using first again by (simp add: is_open_close_def)
qed

end
